theory Spec2Isabelle
  imports Main
begin

section \<open>The flow-trigger prober of the LigueLead gateway\<close>

text \<open>
  The handler of \<^verbatim>\<open>POST /flow/start\<close> posts each entry of a fixed list of candidate
  bodies to one webhook, in order, until the webhook accepts one. This theory embeds the
  handler as a function from the answers of the webhook to the HTTP answer the handler
  sends and the sequence of effects (log lines, outbound calls, delays) it performs.
\<close>

subsection \<open>JavaScript values\<close>

text \<open>
  The values that flow through the handler are JSON documents, plus \<^verbatim>\<open>undefined\<close>
  (what \<^verbatim>\<open>err.response?.data\<close> is when the error has no response). An object keeps
  its keys in insertion order. Numbers are kept as integers: the handler only copies a
  number or tests it for being zero.
\<close>

datatype jsval =
    JUndefined
  | JNull
  | JBool bool
  | JNum int
  | JStr string
  | JArr "jsval list"
  | JObj "(string \<times> jsval) list"

text \<open>JavaScript's truthiness, as \<^verbatim>\<open>||\<close> and \<^verbatim>\<open>&&\<close> test it.\<close>

fun truthy :: "jsval \<Rightarrow> bool" where
  "truthy JUndefined = False"
| "truthy JNull = False"
| "truthy (JBool b) = b"
| "truthy (JNum n) = (n \<noteq> 0)"
| "truthy (JStr s) = (s \<noteq> [])"
| "truthy (JArr xs) = True"
| "truthy (JObj kvs) = True"

text \<open>\<^verbatim>\<open>a || b\<close>: the left operand when it is truthy, the right one otherwise.\<close>

definition js_or :: "jsval \<Rightarrow> jsval \<Rightarrow> jsval" where
  "js_or a b = (if truthy a then a else b)"

subsection \<open>The HTTP client and the HTTP answer\<close>

text \<open>
  \<^verbatim>\<open>axios.post\<close> either resolves with a response (\<^verbatim>\<open>resp.status\<close>,
  \<^verbatim>\<open>resp.data\<close>) or rejects with an error that has a \<^verbatim>\<open>message\<close> and, when the
  remote answered at all, a \<^verbatim>\<open>response\<close>.
\<close>

record reply =
  status :: nat
  data :: jsval

record axios_error =
  response :: "reply option"
  message :: string

datatype axios_result = Resolved reply | Rejected axios_error

text \<open>One outbound call: \<^verbatim>\<open>axios.post(url, payload, { headers, timeout })\<close>.\<close>

record request =
  req_url :: string
  req_body :: jsval
  req_headers :: "(string \<times> string) list"
  req_timeout :: nat

text \<open>
  The webhook, as the handler sees it: the answer to the outbound call number \<open>i\<close>
  (counted from 0 within one run) carrying a given request. Two calls with the same body
  may be answered differently.
\<close>

type_synonym webhook = "nat \<Rightarrow> request \<Rightarrow> axios_result"

text \<open>What \<^verbatim>\<open>res.status(code).json(body)\<close> sends; \<^verbatim>\<open>res.json(body)\<close> sends status 200.\<close>

record http_response =
  statusCode :: nat
  body :: jsval

subsection \<open>Effects\<close>

text \<open>
  The console is an opaque sink; a log line is kept by the place it is written at and the
  values it prints.
\<close>

datatype log_entry =
    Received
  | Trying jsval
  | Accepted jsval nat
  | AttemptFailed jsval "nat option" jsval
  | Aborting
  | NoneWorked

datatype effect = Log log_entry | Post request | Delay nat

fun posts :: "effect list \<Rightarrow> request list" where
  "posts [] = []"
| "posts (Post q # es) = q # posts es"
| "posts (Log l # es) = posts es"
| "posts (Delay ms # es) = posts es"

fun delays :: "effect list \<Rightarrow> nat list" where
  "delays [] = []"
| "delays (Delay ms # es) = ms # delays es"
| "delays (Log l # es) = delays es"
| "delays (Post q # es) = delays es"

subsection \<open>The handler\<close>

definition url :: string where
  "url = ''https://areadocliente.liguelead.com.br/api/crm/webhook/f914ed2e-30d3-4c5a-b4a4-6fe7ea1223d3''"

text \<open>
  The credentials: \<^verbatim>\<open>apiToken\<close> and \<^verbatim>\<open>appId\<close> are read from the environment when the
  module loads; the handler looks at \<^verbatim>\<open>process.env\<close> again to decide whether to send
  them. An environment variable is truthy when it is set and not the empty string.
\<close>

record settings =
  env_APITOKEN :: "string option"
  env_APPID :: "string option"
  apiToken :: string
  appId :: string

definition env_truthy :: "string option \<Rightarrow> bool" where
  "env_truthy v = (case v of None \<Rightarrow> False | Some s \<Rightarrow> s \<noteq> [])"

definition headers :: "settings \<Rightarrow> (string \<times> string) list" where
  "headers cfg =
     [(''Content-Type'', ''application/json'')]
     @ (if env_truthy (env_APITOKEN cfg) then [(''api-token'', apiToken cfg)] else [])
     @ (if env_truthy (env_APPID cfg) then [(''app-id'', appId cfg)] else [])"

definition candidates :: "jsval list" where
  "candidates =
     [ JObj [(''event'', JStr ''iniciar_flow'')],
       JObj [(''event'', JStr ''start_flow'')],
       JObj [(''action'', JStr ''iniciar_flow'')],
       JObj [(''action'', JStr ''start_flow'')],
       JObj [(''type'', JStr ''iniciar_flow'')],
       JObj [(''type'', JStr ''start_flow'')],
       JObj [(''trigger'', JStr ''iniciar_flow'')],
       JObj [(''trigger'', JStr ''start_flow'')],
       JObj [(''event'', JObj [(''name'', JStr ''iniciar_flow'')])],
       JObj [(''event'', JObj [(''name'', JStr ''start_flow'')])],
       JObj [(''event'', JStr ''iniciar_flow''), (''leadId'', JStr ''manual-test-1'')],
       JObj [(''event'', JStr ''iniciar_flow''),
             (''lead'', JObj [(''id'', JStr ''manual-test-1''), (''name'', JStr ''Teste'')])],
       JObj [(''action'', JStr ''start_flow''), (''data'', JObj [(''source'', JStr ''api'')])],
       JObj [],
       JObj [] ]"

text \<open>The request of one attempt: \<^verbatim>\<open>axios.post(url, payload, { headers, timeout: 10000 })\<close>.\<close>

definition request_for :: "(string \<times> string) list \<Rightarrow> jsval \<Rightarrow> request" where
  "request_for hdrs p =
     \<lparr>req_url = url, req_body = p, req_headers = hdrs, req_timeout = 10000\<rparr>"

text \<open>\<^verbatim>\<open>const status = err.response?.status\<close> and \<^verbatim>\<open>const data = err.response?.data\<close>.\<close>

definition status_of :: "axios_error \<Rightarrow> nat option" where
  "status_of err = map_option status (response err)"

definition data_of :: "axios_error \<Rightarrow> jsval" where
  "data_of err = (case response err of None \<Rightarrow> JUndefined | Some r \<Rightarrow> data r)"

text \<open>
  \<^verbatim>\<open>status || 'no-response'\<close>: a number is truthy unless it is 0, \<^verbatim>\<open>undefined\<close> is
  falsy.
\<close>

definition status_or_sentinel :: "nat option \<Rightarrow> jsval" where
  "status_or_sentinel st =
     (case st of
        None \<Rightarrow> JStr ''no-response''
      | Some s \<Rightarrow> if s \<noteq> 0 then JNum (int s) else JStr ''no-response'')"

text \<open>
  The record pushed on \<^verbatim>\<open>results\<close>:
  \<^verbatim>\<open>{ payload, status: status || 'no-response', data: data || err.message }\<close>.
\<close>

definition attempt :: "jsval \<Rightarrow> axios_error \<Rightarrow> jsval" where
  "attempt p err =
     JObj [(''payload'', p),
           (''status'', status_or_sentinel (status_of err)),
           (''data'', js_or (data_of err) (JStr (message err)))]"

text \<open>
  The guard \<^verbatim>\<open>status && ![422, 400].includes(status)\<close>: \<open>Some s\<close> when it holds, with
  \<open>s\<close> the status that \<^verbatim>\<open>res.status(status)\<close> then sends; \<open>None\<close> when the run goes on.
\<close>

definition abort_status :: "axios_error \<Rightarrow> nat option" where
  "abort_status err =
     (case status_of err of
        None \<Rightarrow> None
      | Some s \<Rightarrow> if s \<noteq> 0 \<and> s \<notin> set [422, 400] then Some s else None)"

text \<open>The three answers of the loop.\<close>

definition accepted_response :: "jsval \<Rightarrow> reply \<Rightarrow> http_response" where
  "accepted_response p resp =
     \<lparr>statusCode = 200,
      body = JObj [(''ok'', JBool True), (''usedPayload'', p), (''response'', data resp)]\<rparr>"

definition abort_response :: "nat \<Rightarrow> axios_error \<Rightarrow> jsval list \<Rightarrow> http_response" where
  "abort_response s err results =
     \<lparr>statusCode = s,
      body = JObj [(''error'', js_or (data_of err) (JStr (message err))),
                   (''attempts'', JArr results)]\<rparr>"

definition exhausted_response :: "jsval list \<Rightarrow> http_response" where
  "exhausted_response results =
     \<lparr>statusCode = 422,
      body = JObj [(''ok'', JBool False),
                   (''message'', JStr ''Nenhum payload aceito pelo webhook. Verifique schema esperado pela LigueLead.''),
                   (''attempts'', JArr results)]\<rparr>"

text \<open>
  The loop \<^verbatim>\<open>for (const payload of candidates)\<close> with the code after it, on the
  candidates still to try and the \<^verbatim>\<open>results\<close> pushed so far. Every failed call pushes
  one record and a successful call ends the run, so the call now made is the outbound call
  number \<open>length results\<close>. The effects of the run are returned in the order they happen.
\<close>

fun probe :: "webhook \<Rightarrow> (string \<times> string) list \<Rightarrow> jsval list \<Rightarrow> jsval list
    \<Rightarrow> http_response \<times> effect list" where
  "probe post hdrs [] results = (exhausted_response results, [Log NoneWorked])"
| "probe post hdrs (p # rest) results =
     (case post (length results) (request_for hdrs p) of
        Resolved resp \<Rightarrow>
          (accepted_response p resp,
           [Log (Trying p), Post (request_for hdrs p), Log (Accepted p (status resp))])
      | Rejected err \<Rightarrow>
          (case abort_status err of
             Some s \<Rightarrow>
               (abort_response s err (results @ [attempt p err]),
                [Log (Trying p), Post (request_for hdrs p),
                 Log (AttemptFailed p (status_of err) (data_of err)), Log Aborting])
           | None \<Rightarrow>
               (case probe post hdrs rest (results @ [attempt p err]) of
                  (r, es) \<Rightarrow>
                    (r, [Log (Trying p), Post (request_for hdrs p),
                         Log (AttemptFailed p (status_of err) (data_of err)), Delay 300] @ es))))"


definition flow_start :: "settings \<Rightarrow> webhook \<Rightarrow> http_response \<times> effect list" where
  "flow_start cfg post =
     (case probe post (headers cfg) candidates [] of (r, es) \<Rightarrow> (r, Log Received # es))"

subsection \<open>Reading an answer\<close>

text \<open>
  The caller tells the outcomes apart by the status and the keys of the JSON answer:
  \<^verbatim>\<open>{ok: true, usedPayload, response}\<close> with status 200, \<^verbatim>\<open>{error, attempts}\<close> with
  the remote's status, \<^verbatim>\<open>{ok: false, message, attempts}\<close> with status 422, and
  \<^verbatim>\<open>{error}\<close> with status 500.
\<close>

definition keys :: "jsval \<Rightarrow> string list" where
  "keys v = (case v of JObj kvs \<Rightarrow> map fst kvs | _ \<Rightarrow> [])"

definition field :: "string \<Rightarrow> jsval \<Rightarrow> jsval option" where
  "field k v = (case v of JObj kvs \<Rightarrow> map_of kvs k | _ \<Rightarrow> None)"

definition is_first_success :: "http_response \<Rightarrow> bool" where
  "is_first_success r =
     (statusCode r = 200 \<and> keys (body r) = [''ok'', ''usedPayload'', ''response'']
      \<and> field ''ok'' (body r) = Some (JBool True))"

definition is_non_recoverable_failure :: "http_response \<Rightarrow> bool" where
  "is_non_recoverable_failure r = (keys (body r) = [''error'', ''attempts''])"

definition is_exhausted :: "http_response \<Rightarrow> bool" where
  "is_exhausted r =
     (statusCode r = 422 \<and> keys (body r) = [''ok'', ''message'', ''attempts'']
      \<and> field ''ok'' (body r) = Some (JBool False))"

definition is_internal_fault :: "http_response \<Rightarrow> bool" where
  "is_internal_fault r = (statusCode r = 500 \<and> keys (body r) = [''error''])"


subsection \<open>Concrete runs\<close>

text \<open>Settings with both credentials present, as the module requires at start-up.\<close>

definition demo_settings :: settings where
  "demo_settings =
     \<lparr>env_APITOKEN = Some ''token'', env_APPID = Some ''app'',
      apiToken = ''token'', appId = ''app''\<rparr>"

text \<open>The messages axios gives its errors.\<close>

definition failed_with :: "nat \<Rightarrow> jsval \<Rightarrow> string \<Rightarrow> axios_error" where
  "failed_with s d m = \<lparr>response = Some \<lparr>status = s, data = d\<rparr>, message = m\<rparr>"

definition err_422 :: axios_error where
  "err_422 = failed_with 422 (JObj [(''message'', JStr ''invalid payload'')])
               ''Request failed with status code 422''"

definition err_503 :: axios_error where
  "err_503 = failed_with 503 (JObj [(''message'', JStr ''unavailable'')])
               ''Request failed with status code 503''"

definition err_503_empty :: axios_error where
  "err_503_empty = failed_with 503 (JStr []) ''Request failed with status code 503''"

definition err_timeout :: axios_error where
  "err_timeout = \<lparr>response = None, message = ''timeout of 10000ms exceeded''\<rparr>"

definition queued :: reply where
  "queued = \<lparr>status = 200, data = JObj [(''queued'', JBool True)]\<rparr>"

text \<open>The two candidate lists of the specification's scenarios.\<close>

definition two_candidates :: "jsval list" where
  "two_candidates =
     [JObj [(''event'', JStr ''iniciar_flow'')], JObj [(''action'', JStr ''iniciar_flow'')]]"

definition one_candidate :: "jsval list" where
  "one_candidate = [JObj [(''event'', JStr ''iniciar_flow'')]]"

text \<open>Webhooks: what each answers to the call number \<open>i\<close>.\<close>

definition rejects_first_then_accepts :: webhook where
  "rejects_first_then_accepts i q = (if i = 0 then Rejected err_422 else Resolved queued)"

definition silent_first_then_accepts :: webhook where
  "silent_first_then_accepts i q = (if i = 0 then Rejected err_timeout else Resolved queued)"

definition always_503 :: webhook where
  "always_503 i q = Rejected err_503"

definition always_503_empty :: webhook where
  "always_503_empty i q = Rejected err_503_empty"

definition always_422 :: webhook where
  "always_422 i q = Rejected err_422"


section \<open>Properties\<close>

subsection \<open>Effects of a run and single steps of the loop\<close>

lemma probe_resolved:
  "post (length results) (request_for hdrs p) = Resolved resp \<Longrightarrow>
   probe post hdrs (p # rest) results =
     (accepted_response p resp,
      [Log (Trying p), Post (request_for hdrs p), Log (Accepted p (status resp))])"
  by simp

lemma probe_abort:
  "post (length results) (request_for hdrs p) = Rejected err \<Longrightarrow> abort_status err = Some s \<Longrightarrow>
   probe post hdrs (p # rest) results =
     (abort_response s err (results @ [attempt p err]),
      [Log (Trying p), Post (request_for hdrs p),
       Log (AttemptFailed p (status_of err) (data_of err)), Log Aborting])"
  by simp

lemma probe_continue:
  "post (length results) (request_for hdrs p) = Rejected err \<Longrightarrow> abort_status err = None \<Longrightarrow>
   probe post hdrs (p # rest) results =
     (fst (probe post hdrs rest (results @ [attempt p err])),
      [Log (Trying p), Post (request_for hdrs p),
       Log (AttemptFailed p (status_of err) (data_of err)), Delay 300]
      @ snd (probe post hdrs rest (results @ [attempt p err])))"
  by (simp split: prod.splits)

lemma abort_status_SomeD:
  "abort_status e = Some s \<Longrightarrow> status_of e = Some s \<and> s \<noteq> 0 \<and> s \<noteq> 400 \<and> s \<noteq> 422"
  by (auto simp: abort_status_def split: option.splits if_splits)

lemma abort_status_recoverable:
  "status_of e = Some 400 \<or> status_of e = Some 422 \<Longrightarrow> abort_status e = None"
  by (auto simp: abort_status_def)

lemma abort_status_no_response:
  "response e = None \<Longrightarrow> abort_status e = None"
  by (simp add: abort_status_def status_of_def)


subsection \<open>A run of failures that do not abort\<close>

text \<open>
  When the first \<open>length errs\<close> calls are rejected with the errors \<open>errs\<close> and none of
  them aborts, the run is the run on the remaining candidates, after one record, one
  outbound call and one delay per failure.
\<close>

lemma probe_skip:
  assumes "length errs \<le> length cands"
    and "\<forall>j<length errs. post (length results + j) (request_for hdrs (cands ! j)) = Rejected (errs ! j)
           \<and> abort_status (errs ! j) = None"
  shows "fst (probe post hdrs cands results) =
           fst (probe post hdrs (drop (length errs) cands)
                  (results @ map2 attempt (take (length errs) cands) errs))
       \<and> posts (snd (probe post hdrs cands results)) =
           map (request_for hdrs) (take (length errs) cands)
           @ posts (snd (probe post hdrs (drop (length errs) cands)
                  (results @ map2 attempt (take (length errs) cands) errs)))
       \<and> delays (snd (probe post hdrs cands results)) =
           replicate (length errs) 300
           @ delays (snd (probe post hdrs (drop (length errs) cands)
                  (results @ map2 attempt (take (length errs) cands) errs)))"
  using assms
proof (induction errs arbitrary: cands results)
  case Nil
  then show ?case by simp
next
  case (Cons e errs)
  then obtain p rest where cands: "cands = p # rest"
    by (cases cands) auto
  from Cons.prems(2) have h0: "post (length results) (request_for hdrs p) = Rejected e"
    and a0: "abort_status e = None"
    unfolding cands by fastforce+
  have len: "length errs \<le> length rest"
    using Cons.prems(1) cands by simp
  have rest: "\<forall>j<length errs. post (length (results @ [attempt p e]) + j) (request_for hdrs (rest ! j))
                = Rejected (errs ! j) \<and> abort_status (errs ! j) = None"
  proof (intro allI impI)
    fix j assume "j < length errs"
    then have "Suc j < length (e # errs)" by simp
    with Cons.prems(2) show "post (length (results @ [attempt p e]) + j) (request_for hdrs (rest ! j))
                = Rejected (errs ! j) \<and> abort_status (errs ! j) = None"
      unfolding cands by fastforce
  qed
  note IH = Cons.IH [OF len rest]
  show ?case
    unfolding cands using IH
    by (simp add: probe_continue [where post=post and results=results and hdrs=hdrs and p=p and err=e, OF h0 a0]
        del: probe.simps)
qed


subsection \<open>Every run\<close>

lemma class_accepted:
  "is_first_success (accepted_response p resp)"
  "\<not> is_non_recoverable_failure (accepted_response p resp)"
  "\<not> is_exhausted (accepted_response p resp)"
  "\<not> is_internal_fault (accepted_response p resp)"
  by (simp_all add: accepted_response_def is_first_success_def is_non_recoverable_failure_def
      is_exhausted_def is_internal_fault_def keys_def field_def)

lemma class_abort:
  "\<not> is_first_success (abort_response s err rs)"
  "is_non_recoverable_failure (abort_response s err rs)"
  "\<not> is_exhausted (abort_response s err rs)"
  "\<not> is_internal_fault (abort_response s err rs)"
  by (simp_all add: abort_response_def is_first_success_def is_non_recoverable_failure_def
      is_exhausted_def is_internal_fault_def keys_def field_def)

lemma class_exhausted:
  "\<not> is_first_success (exhausted_response rs)"
  "\<not> is_non_recoverable_failure (exhausted_response rs)"
  "is_exhausted (exhausted_response rs)"
  "\<not> is_internal_fault (exhausted_response rs)"
  by (simp_all add: exhausted_response_def is_first_success_def is_non_recoverable_failure_def
      is_exhausted_def is_internal_fault_def keys_def field_def)

lemma probe_posts_prefix:
  "\<exists>k\<le>length cands. (cands \<noteq> [] \<longrightarrow> 0 < k) \<and>
     posts (snd (probe post hdrs cands results)) = map (request_for hdrs) (take k cands)"
proof (induction cands arbitrary: results)
  case Nil
  then show ?case by simp
next
  case (Cons p rest)
  show ?case
  proof (cases "post (length results) (request_for hdrs p)")
    case (Resolved resp)
    then have "posts (snd (probe post hdrs (p # rest) results))
        = map (request_for hdrs) (take (Suc 0) (p # rest))"
      by simp
    then show ?thesis by (intro exI [of _ "Suc 0"]) simp
  next
    case (Rejected err)
    show ?thesis
    proof (cases "abort_status err")
      case (Some s)
      with Rejected have "posts (snd (probe post hdrs (p # rest) results))
          = map (request_for hdrs) (take (Suc 0) (p # rest))"
        by simp
      then show ?thesis by (intro exI [of _ "Suc 0"]) simp
    next
      case None
      from Cons.IH [of "results @ [attempt p err]"] obtain k where
        k: "k \<le> length rest"
        "posts (snd (probe post hdrs rest (results @ [attempt p err])))
           = map (request_for hdrs) (take k rest)"
        by blast
      from k(2) have "posts (snd (probe post hdrs (p # rest) results))
          = map (request_for hdrs) (take (Suc k) (p # rest))"
        by (simp add: probe_continue [where post=post and results=results, OF Rejected None]
            del: probe.simps)
      with k(1) show ?thesis by (intro exI [of _ "Suc k"]) simp
    qed
  qed
qed

lemma probe_delays:
  "\<exists>n\<le>length cands. delays (snd (probe post hdrs cands results)) = replicate n 300"
proof (induction cands arbitrary: results)
  case Nil
  then show ?case by simp
next
  case (Cons p rest)
  show ?case
  proof (cases "post (length results) (request_for hdrs p)")
    case (Resolved resp)
    then have "delays (snd (probe post hdrs (p # rest) results)) = replicate 0 300"
      by simp
    then show ?thesis by blast
  next
    case (Rejected err)
    show ?thesis
    proof (cases "abort_status err")
      case (Some s)
      with Rejected have "delays (snd (probe post hdrs (p # rest) results)) = replicate 0 300"
        by simp
      then show ?thesis by blast
    next
      case None
      from Cons.IH [of "results @ [attempt p err]"] obtain n where
        n: "n \<le> length rest"
        "delays (snd (probe post hdrs rest (results @ [attempt p err]))) = replicate n 300"
        by blast
      from n(2) have "delays (snd (probe post hdrs (p # rest) results))
          = replicate (Suc n) 300"
        by (simp add: probe_continue [where post=post and results=results, OF Rejected None]
            del: probe.simps)
      with n(1) show ?thesis by (intro exI [of _ "Suc n"]) simp
    qed
  qed
qed


lemma exhausted_delays:
  "is_exhausted (fst (probe post hdrs cands results)) \<Longrightarrow>
   delays (snd (probe post hdrs cands results)) = replicate (length cands) 300"
  by (induction post hdrs cands results rule: probe.induct)
     (auto simp: class_accepted class_abort split: axios_result.splits option.splits prod.splits)

lemma abort_cause:
  "is_non_recoverable_failure (fst (probe post hdrs cands results)) \<Longrightarrow>
   \<exists>j<length cands. \<exists>e s. post (length results + j) (request_for hdrs (cands ! j)) = Rejected e
      \<and> status_of e = Some s \<and> s \<noteq> 0 \<and> s \<noteq> 400 \<and> s \<noteq> 422"
proof (induction cands arbitrary: results)
  case Nil
  then show ?case by (simp add: class_exhausted)
next
  case (Cons p rest)
  show ?case
  proof (cases "post (length results) (request_for hdrs p)")
    case (Resolved resp)
    with Cons.prems show ?thesis by (simp add: class_accepted)
  next
    case (Rejected err)
    show ?thesis
    proof (cases "abort_status err")
      case (Some s)
      with Rejected abort_status_SomeD [OF Some] show ?thesis
        by (intro exI [of _ 0]) simp
    next
      case None
      with Cons.prems
      have "is_non_recoverable_failure (fst (probe post hdrs rest (results @ [attempt p err])))"
        by (simp add: probe_continue [where post=post and results=results, OF Rejected None]
            del: probe.simps)
      from Cons.IH [OF this] obtain j e s where
        "j < length rest"
        "post (length (results @ [attempt p err]) + j) (request_for hdrs (rest ! j)) = Rejected e"
        "status_of e = Some s \<and> s \<noteq> 0 \<and> s \<noteq> 400 \<and> s \<noteq> 422"
        by blast
      then show ?thesis
        by (intro exI [of _ "Suc j"]) simp
    qed
  qed
qed

subsection \<open>The handler and runs that fail from the start\<close>


lemma flow_start_posts:
  "posts (snd (flow_start cfg post)) = posts (snd (probe post (headers cfg) candidates []))"
  by (simp add: flow_start_def split: prod.splits)




section \<open>The claims\<close>

text \<open>
  The claims speak of a run from its start, \<open>probe post hdrs cands []\<close>, on any list of
  candidates; the handler \<open>flow_start cfg post\<close> is that run on \<open>candidates\<close> with the
  headers \<open>headers cfg\<close>.
\<close>

text \<open>
  C1. When the first \<open>N - 1\<close> calls (here \<open>length errs\<close> of them) are rejected with a
  response of status 400 or 422 and the call for the \<open>N\<close>th candidate resolves, the run
  answers status 200 with \<^verbatim>\<open>{ok: true, usedPayload, response}\<close>, where \<^verbatim>\<open>usedPayload\<close>
  is the \<open>N\<close>th candidate and \<^verbatim>\<open>response\<close> the body the remote sent; it has waited
  exactly \<open>N - 1\<close> delays of 300 ms and has posted the first \<open>N\<close> candidates and
  nothing after them.
\<close>

theorem first_success_at_nth_candidate:
  assumes "length errs < length cands"
    and "\<forall>j<length errs. post j (request_for hdrs (cands ! j)) = Rejected (errs ! j)
           \<and> (status_of (errs ! j) = Some 400 \<or> status_of (errs ! j) = Some 422)"
    and "post (length errs) (request_for hdrs (cands ! length errs)) = Resolved resp"
  shows "fst (probe post hdrs cands []) =
           \<lparr>statusCode = 200,
            body = JObj [(''ok'', JBool True), (''usedPayload'', cands ! length errs),
                         (''response'', data resp)]\<rparr>
       \<and> delays (snd (probe post hdrs cands [])) = replicate (length errs) 300
       \<and> posts (snd (probe post hdrs cands [])) =
           map (request_for hdrs) (take (Suc (length errs)) cands)"
proof -
  let ?n = "length errs"
  let ?rs = "map2 attempt (take ?n cands) errs"
  have skip: "\<forall>j<?n. post (length ([]::jsval list) + j) (request_for hdrs (cands ! j)) = Rejected (errs ! j)
           \<and> abort_status (errs ! j) = None"
    using assms(2) by (simp add: abort_status_recoverable)
  have le: "?n \<le> length cands" using assms(1) by simp
  note run = probe_skip [OF le skip]
  have drop: "drop ?n cands = cands ! ?n # drop (Suc ?n) cands"
    using assms(1) by (simp add: Cons_nth_drop_Suc)
  have len: "length ?rs = ?n" using le by simp
  have here: "post (length ([] @ ?rs)) (request_for hdrs (cands ! ?n)) = Resolved resp"
    using assms(3) len by simp
  have last: "probe post hdrs (drop ?n cands) ([] @ ?rs) =
      (accepted_response (cands ! ?n) resp,
       [Log (Trying (cands ! ?n)), Post (request_for hdrs (cands ! ?n)),
        Log (Accepted (cands ! ?n) (status resp))])"
    unfolding drop by (rule probe_resolved [where post=post, OF here])
  have take: "take (Suc ?n) cands = take ?n cands @ [cands ! ?n]"
    using assms(1) by (simp add: take_Suc_conv_app_nth)
  show ?thesis
    using run unfolding last by (simp add: accepted_response_def take)
qed

theorem first_success_at_nth_candidate_witness:
  "rejects_first_then_accepts 0 (request_for (headers demo_settings) (two_candidates ! 0))
     = Rejected err_422
   \<and> status_of err_422 = Some 422
   \<and> rejects_first_then_accepts 1 (request_for (headers demo_settings) (two_candidates ! 1))
     = Resolved queued
   \<and> fst (probe rejects_first_then_accepts (headers demo_settings) two_candidates []) =
       \<lparr>statusCode = 200,
        body = JObj [(''ok'', JBool True), (''usedPayload'', JObj [(''action'', JStr ''iniciar_flow'')]),
                     (''response'', JObj [(''queued'', JBool True)])]\<rparr>
   \<and> delays (snd (probe rejects_first_then_accepts (headers demo_settings) two_candidates [])) = [300]
   \<and> map req_body (posts (snd (probe rejects_first_then_accepts (headers demo_settings) two_candidates [])))
       = two_candidates"
  using first_success_at_nth_candidate [of "[err_422]" two_candidates rejects_first_then_accepts
      "headers demo_settings" queued]
  by (simp add: two_candidates_def rejects_first_then_accepts_def err_422_def failed_with_def
      status_of_def queued_def request_for_def)

text \<open>
  C2. A rejected call whose error has no response does not abort the run, at any position
  of any candidate list: the run goes on with the remaining candidates after the record
  \<^verbatim>\<open>{payload, status: 'no-response', data: err.message}\<close> has been pushed and the delay
  awaited. In particular, no response to the first candidate and a resolved call for the
  second give the 200 answer with the second candidate. And a run answers
  \<^verbatim>\<open>{error, attempts}\<close> only when some call was rejected with a response whose status
  is neither 400 nor 422.
\<close>

theorem no_response_does_not_abort:
  "(post (length results) (request_for hdrs p) = Rejected err \<and> response err = None \<longrightarrow>
      probe post hdrs (p # rest) results =
        (fst (probe post hdrs rest
                (results @ [JObj [(''payload'', p), (''status'', JStr ''no-response''),
                                  (''data'', JStr (message err))]])),
         [Log (Trying p), Post (request_for hdrs p), Log (AttemptFailed p None JUndefined),
          Delay 300]
         @ snd (probe post hdrs rest
                (results @ [JObj [(''payload'', p), (''status'', JStr ''no-response''),
                                  (''data'', JStr (message err))]]))))
   \<and> (post 0 (request_for hdrs p) = Rejected err \<and> response err = None
        \<and> post 1 (request_for hdrs p') = Resolved resp \<longrightarrow>
      fst (probe post hdrs (p # p' # rest') []) =
        \<lparr>statusCode = 200,
         body = JObj [(''ok'', JBool True), (''usedPayload'', p'), (''response'', data resp)]\<rparr>)
   \<and> (is_non_recoverable_failure (fst (probe post' hdrs cands [])) \<longrightarrow>
      (\<exists>j<length cands. \<exists>s d m.
          post' j (request_for hdrs (cands ! j))
            = Rejected \<lparr>response = Some \<lparr>status = s, data = d\<rparr>, message = m\<rparr>
          \<and> s \<noteq> 400 \<and> s \<noteq> 422))"
proof (intro conjI impI)
  assume h: "post (length results) (request_for hdrs p) = Rejected err \<and> response err = None"
  then have rec: "attempt p err =
      JObj [(''payload'', p), (''status'', JStr ''no-response''), (''data'', JStr (message err))]"
    and st: "status_of err = None" and dt: "data_of err = JUndefined"
    by (simp_all add: attempt_def status_of_def data_of_def status_or_sentinel_def js_or_def)
  from h have "abort_status err = None" by (simp add: abort_status_no_response)
  from probe_continue [where post=post and results=results, OF conjunct1 [OF h] this]
  show "probe post hdrs (p # rest) results =
        (fst (probe post hdrs rest
                (results @ [JObj [(''payload'', p), (''status'', JStr ''no-response''),
                                  (''data'', JStr (message err))]])),
         [Log (Trying p), Post (request_for hdrs p), Log (AttemptFailed p None JUndefined),
          Delay 300]
         @ snd (probe post hdrs rest
                (results @ [JObj [(''payload'', p), (''status'', JStr ''no-response''),
                                  (''data'', JStr (message err))]])))"
    by (simp only: rec st dt)
next
  assume h: "post 0 (request_for hdrs p) = Rejected err \<and> response err = None
        \<and> post 1 (request_for hdrs p') = Resolved resp"
  then have a: "abort_status err = None" by (simp add: abort_status_no_response)
  from h have first: "post (length ([]::jsval list)) (request_for hdrs p) = Rejected err" by simp
  from h have second: "post (length [attempt p err]) (request_for hdrs p') = Resolved resp"
    by simp
  show "fst (probe post hdrs (p # p' # rest') []) =
        \<lparr>statusCode = 200,
         body = JObj [(''ok'', JBool True), (''usedPayload'', p'), (''response'', data resp)]\<rparr>"
    by (simp add: probe_continue [where post=post, OF first a]
        probe_resolved [where post=post and results="[attempt p err]", OF second]
        accepted_response_def del: probe.simps)
next
  assume "is_non_recoverable_failure (fst (probe post' hdrs cands []))"
  from abort_cause [OF this] obtain j e s where j: "j < length cands"
    and e: "post' j (request_for hdrs (cands ! j)) = Rejected e"
    and s: "status_of e = Some s" "s \<noteq> 400" "s \<noteq> 422"
    by auto
  from s(1) obtain r where r: "response e = Some r" "status r = s"
    by (auto simp: status_of_def)
  have "e = \<lparr>response = Some \<lparr>status = s, data = data r\<rparr>, message = message e\<rparr>"
    using r by simp
  with e have "post' j (request_for hdrs (cands ! j))
      = Rejected \<lparr>response = Some \<lparr>status = s, data = data r\<rparr>, message = message e\<rparr>"
    by simp
  with j s show "\<exists>j<length cands. \<exists>s d m.
          post' j (request_for hdrs (cands ! j))
            = Rejected \<lparr>response = Some \<lparr>status = s, data = d\<rparr>, message = m\<rparr>
          \<and> s \<noteq> 400 \<and> s \<noteq> 422"
    by blast
qed

text \<open>
  The run on the two candidates where the first call times out and the second is accepted,
  and the abort of a run on a 503.
\<close>

theorem no_response_does_not_abort_witness:
  "silent_first_then_accepts 0 (request_for (headers demo_settings) (two_candidates ! 0))
     = Rejected err_timeout
   \<and> response err_timeout = None
   \<and> silent_first_then_accepts 1 (request_for (headers demo_settings) (two_candidates ! 1))
     = Resolved queued
   \<and> fst (probe silent_first_then_accepts (headers demo_settings) two_candidates []) =
       \<lparr>statusCode = 200,
        body = JObj [(''ok'', JBool True), (''usedPayload'', JObj [(''action'', JStr ''iniciar_flow'')]),
                     (''response'', JObj [(''queued'', JBool True)])]\<rparr>
   \<and> delays (snd (probe silent_first_then_accepts (headers demo_settings) two_candidates [])) = [300]
   \<and> is_non_recoverable_failure (fst (probe always_503 (headers demo_settings) one_candidate []))
   \<and> always_503 0 (request_for (headers demo_settings) (one_candidate ! 0)) = Rejected err_503
   \<and> status_of err_503 = Some 503"
  using no_response_does_not_abort [where post=silent_first_then_accepts and results="[]"
      and hdrs="headers demo_settings" and p="two_candidates ! 0" and err=err_timeout
      and rest="[two_candidates ! 1]" and p'="two_candidates ! 1" and resp=queued and rest'="[]"
      and post'=always_503 and cands=one_candidate]
  by (simp add: two_candidates_def one_candidate_def silent_first_then_accepts_def
      always_503_def err_timeout_def err_503_def failed_with_def status_of_def queued_def
      abort_status_def attempt_def data_of_def js_or_def status_or_sentinel_def
      accepted_response_def abort_response_def is_non_recoverable_failure_def keys_def)




text \<open>
  C4. When every call is rejected with a response of status 400 or 422, the run answers
  status 422 with \<^verbatim>\<open>{ok: false, message, attempts}\<close>; \<^verbatim>\<open>attempts\<close> holds one record for
  each candidate, in the order of the candidates, so it is as long as the candidate list.
\<close>

theorem all_recoverable_exhausts:
  assumes "length errs = length cands"
    and "\<forall>j<length cands. post j (request_for hdrs (cands ! j)) = Rejected (errs ! j)
           \<and> (status_of (errs ! j) = Some 400 \<or> status_of (errs ! j) = Some 422)"
  shows "fst (probe post hdrs cands []) =
           \<lparr>statusCode = 422,
            body = JObj [(''ok'', JBool False),
                         (''message'', JStr ''Nenhum payload aceito pelo webhook. Verifique schema esperado pela LigueLead.''),
                         (''attempts'', JArr (map2 attempt cands errs))]\<rparr>
       \<and> length (map2 attempt cands errs) = length cands
       \<and> map (field ''payload'') (map2 attempt cands errs) = map Some cands"
proof -
  have skip: "\<forall>j<length errs. post (length ([]::jsval list) + j) (request_for hdrs (cands ! j))
                = Rejected (errs ! j) \<and> abort_status (errs ! j) = None"
    using assms by (simp add: abort_status_recoverable)
  have le: "length errs \<le> length cands" using assms(1) by simp
  from probe_skip [OF le skip]
  have "fst (probe post hdrs cands []) = exhausted_response (map2 attempt cands errs)"
    using assms(1) by simp
  moreover have "map (field ''payload'') (map2 attempt cands errs) = map Some cands"
    using assms(1)
    by (induction cands errs rule: list_induct2') (simp_all add: attempt_def field_def)
  ultimately show ?thesis
    using assms(1) by (simp add: exhausted_response_def)
qed

text \<open>
  Two candidates, both answered 422.
\<close>

theorem all_recoverable_exhausts_witness:
  "always_422 0 (request_for (headers demo_settings) (two_candidates ! 0)) = Rejected err_422
   \<and> always_422 1 (request_for (headers demo_settings) (two_candidates ! 1)) = Rejected err_422
   \<and> status_of err_422 = Some 422
   \<and> fst (probe always_422 (headers demo_settings) two_candidates []) =
       \<lparr>statusCode = 422,
        body = JObj [(''ok'', JBool False),
                     (''message'', JStr ''Nenhum payload aceito pelo webhook. Verifique schema esperado pela LigueLead.''),
                     (''attempts'',
                      JArr [attempt (JObj [(''event'', JStr ''iniciar_flow'')]) err_422,
                            attempt (JObj [(''action'', JStr ''iniciar_flow'')]) err_422])]\<rparr>"
  using all_recoverable_exhausts [of "[err_422, err_422]" two_candidates always_422
      "headers demo_settings"]
  by (simp add: two_candidates_def always_422_def err_422_def failed_with_def status_of_def
      less_Suc_eq)



text \<open>
  C6. A response of an HTTP status (not 0) lets the run go on exactly when the status is
  400 or 422. After a call rejected with such a status the run pushes the record
  \<^verbatim>\<open>{payload, status, data: data || err.message}\<close>, waits one delay of 300 ms and goes on
  with the remaining candidates. In every run each delay is 300 ms, whatever its position,
  there are at most as many delays as candidates, and the calls made are the first \<open>k\<close>
  candidates, each posted once: one pass over the list.
\<close>

theorem recoverable_failure_continues:
  "(s \<noteq> 0 \<longrightarrow>
      (abort_status \<lparr>response = Some \<lparr>status = s, data = d\<rparr>, message = m\<rparr> = None
         \<longleftrightarrow> s = 400 \<or> s = 422))
   \<and> (post (length results) (request_for hdrs p) = Rejected err
        \<and> status_of err = Some s' \<and> (s' = 400 \<or> s' = 422) \<longrightarrow>
      probe post hdrs (p # rest) results =
        (fst (probe post hdrs rest
                (results @ [JObj [(''payload'', p), (''status'', JNum (int s')),
                                  (''data'', js_or (data_of err) (JStr (message err)))]])),
         [Log (Trying p), Post (request_for hdrs p),
          Log (AttemptFailed p (Some s') (data_of err)), Delay 300]
         @ snd (probe post hdrs rest
                (results @ [JObj [(''payload'', p), (''status'', JNum (int s')),
                                  (''data'', js_or (data_of err) (JStr (message err)))]]))))
   \<and> (\<exists>n\<le>length cands. delays (snd (probe post' hdrs' cands [])) = replicate n 300)
   \<and> (\<exists>k\<le>length cands.
         posts (snd (probe post' hdrs' cands [])) = map (request_for hdrs') (take k cands))"
proof (intro conjI impI)
  assume "s \<noteq> 0"
  then show "abort_status \<lparr>response = Some \<lparr>status = s, data = d\<rparr>, message = m\<rparr> = None
         \<longleftrightarrow> s = 400 \<or> s = 422"
    by (auto simp: abort_status_def status_of_def)
next
  assume h: "post (length results) (request_for hdrs p) = Rejected err
        \<and> status_of err = Some s' \<and> (s' = 400 \<or> s' = 422)"
  then have a: "abort_status err = None"
    by (auto simp: abort_status_recoverable)
  from h have rec: "attempt p err =
      JObj [(''payload'', p), (''status'', JNum (int s')),
            (''data'', js_or (data_of err) (JStr (message err)))]"
    by (auto simp: attempt_def status_or_sentinel_def)
  from h have st: "status_of err = Some s'" by simp
  from probe_continue [where post=post and results=results, OF conjunct1 [OF h] a]
  show "probe post hdrs (p # rest) results =
        (fst (probe post hdrs rest
                (results @ [JObj [(''payload'', p), (''status'', JNum (int s')),
                                  (''data'', js_or (data_of err) (JStr (message err)))]])),
         [Log (Trying p), Post (request_for hdrs p),
          Log (AttemptFailed p (Some s') (data_of err)), Delay 300]
         @ snd (probe post hdrs rest
                (results @ [JObj [(''payload'', p), (''status'', JNum (int s')),
                                  (''data'', js_or (data_of err) (JStr (message err)))]])))"
    by (simp only: rec st)
next
  show "\<exists>n\<le>length cands. delays (snd (probe post' hdrs' cands [])) = replicate n 300"
    by (rule probe_delays)
next
  from probe_posts_prefix [of cands post' hdrs' "[]"]
  show "\<exists>k\<le>length cands.
         posts (snd (probe post' hdrs' cands [])) = map (request_for hdrs') (take k cands)"
    by blast
qed

text \<open>
  Status 422 goes on and status 500 does not; the effects of the run where the first of two
  candidates is answered 422 and the second is accepted.
\<close>

theorem recoverable_failure_continues_witness:
  "abort_status \<lparr>response = Some \<lparr>status = 422, data = JNull\<rparr>, message = []\<rparr> = None
   \<and> abort_status \<lparr>response = Some \<lparr>status = 500, data = JNull\<rparr>, message = []\<rparr> \<noteq> None
   \<and> rejects_first_then_accepts 0 (request_for (headers demo_settings) (two_candidates ! 0))
       = Rejected err_422
   \<and> status_of err_422 = Some 422
   \<and> snd (probe rejects_first_then_accepts (headers demo_settings) two_candidates []) =
       [Log (Trying (two_candidates ! 0)),
        Post (request_for (headers demo_settings) (two_candidates ! 0)),
        Log (AttemptFailed (two_candidates ! 0) (Some 422) (data_of err_422)),
        Delay 300,
        Log (Trying (two_candidates ! 1)),
        Post (request_for (headers demo_settings) (two_candidates ! 1)),
        Log (Accepted (two_candidates ! 1) 200)]"
  using recoverable_failure_continues [where s=422 and d=JNull and m="[]"
      and post=rejects_first_then_accepts and results="[]" and hdrs="headers demo_settings"
      and p="two_candidates ! 0" and err=err_422 and s'=422 and rest="[two_candidates ! 1]"]
    recoverable_failure_continues [where s=500 and d=JNull and m="[]"]
  by (simp add: two_candidates_def rejects_first_then_accepts_def err_422_def failed_with_def
      status_of_def data_of_def queued_def)

text \<open>
  C7. The outbound calls of a run, in the order they are made, are the requests for the
  first \<open>k\<close> candidates in the order of the list, one call for each: every call goes to
  \<open>url\<close> with the candidate as body, the given headers and the timeout of 10000 ms. For
  the handler the list is \<open>candidates\<close>, the headers are \<open>headers cfg\<close> and at least one
  call is made. The model makes one call at a time, as the awaited calls of the loop do.
\<close>

theorem outbound_calls_are_a_prefix:
  "(\<exists>k\<le>length cands.
      posts (snd (probe post hdrs cands [])) =
        map (\<lambda>p. \<lparr>req_url = url, req_body = p, req_headers = hdrs, req_timeout = 10000\<rparr>)
          (take k cands))
   \<and> (\<exists>k. 0 < k \<and> k \<le> length candidates \<and>
      posts (snd (flow_start cfg post')) =
        map (\<lambda>p. \<lparr>req_url = url, req_body = p, req_headers = headers cfg, req_timeout = 10000\<rparr>)
          (take k candidates))"
proof -
  have req: "request_for h = (\<lambda>p. \<lparr>req_url = url, req_body = p, req_headers = h, req_timeout = 10000\<rparr>)"
    for h by (rule ext) (simp add: request_for_def)
  have ne: "candidates \<noteq> []" by (simp add: candidates_def)
  from probe_posts_prefix [of cands post hdrs "[]"]
  have "\<exists>k\<le>length cands.
      posts (snd (probe post hdrs cands [])) =
        map (\<lambda>p. \<lparr>req_url = url, req_body = p, req_headers = hdrs, req_timeout = 10000\<rparr>)
          (take k cands)"
    unfolding req by blast
  moreover from probe_posts_prefix [of candidates post' "headers cfg" "[]"] ne
  have "\<exists>k. 0 < k \<and> k \<le> length candidates \<and>
      posts (snd (flow_start cfg post')) =
        map (\<lambda>p. \<lparr>req_url = url, req_body = p, req_headers = headers cfg, req_timeout = 10000\<rparr>)
          (take k candidates)"
    unfolding req flow_start_posts by blast
  ultimately show ?thesis by blast
qed

text \<open>
  The calls of the run on the two candidates, and of the handler when the second call is
  accepted.
\<close>

theorem outbound_calls_are_a_prefix_witness:
  "posts (snd (probe rejects_first_then_accepts (headers demo_settings) two_candidates [])) =
     [\<lparr>req_url = url, req_body = JObj [(''event'', JStr ''iniciar_flow'')],
       req_headers = [(''Content-Type'', ''application/json''), (''api-token'', ''token''),
                      (''app-id'', ''app'')],
       req_timeout = 10000\<rparr>,
      \<lparr>req_url = url, req_body = JObj [(''action'', JStr ''iniciar_flow'')],
       req_headers = [(''Content-Type'', ''application/json''), (''api-token'', ''token''),
                      (''app-id'', ''app'')],
       req_timeout = 10000\<rparr>]
   \<and> posts (snd (flow_start demo_settings rejects_first_then_accepts)) =
     [\<lparr>req_url = url, req_body = JObj [(''event'', JStr ''iniciar_flow'')],
       req_headers = [(''Content-Type'', ''application/json''), (''api-token'', ''token''),
                      (''app-id'', ''app'')],
       req_timeout = 10000\<rparr>,
      \<lparr>req_url = url, req_body = JObj [(''event'', JStr ''start_flow'')],
       req_headers = [(''Content-Type'', ''application/json''), (''api-token'', ''token''),
                      (''app-id'', ''app'')],
       req_timeout = 10000\<rparr>]"
  using outbound_calls_are_a_prefix [of two_candidates rejects_first_then_accepts
      "headers demo_settings" demo_settings rejects_first_then_accepts]
  by (simp add: flow_start_def candidates_def two_candidates_def rejects_first_then_accepts_def
      err_422_def failed_with_def abort_status_def status_of_def queued_def request_for_def
      headers_def demo_settings_def env_truthy_def)

text \<open>
  C8. After a failed call that does not abort, whether the error has no response or a
  response of status 400 or 422, the delay of 300 ms comes next, before anything else of
  the run; after the last candidate too, where only the log line and the 422 answer
  follow it. So a run that ends exhausted on \<open>L\<close> candidates has waited exactly \<open>L\<close>
  delays.
\<close>

theorem delay_after_every_continuing_failure:
  "(post (length results) (request_for hdrs p) = Rejected err
      \<and> (response err = None \<or> status_of err = Some 400 \<or> status_of err = Some 422) \<longrightarrow>
      snd (probe post hdrs (p # rest) results) =
        [Log (Trying p), Post (request_for hdrs p),
         Log (AttemptFailed p (status_of err) (data_of err)), Delay 300]
        @ snd (probe post hdrs rest (results @ [attempt p err]))
      \<and> snd (probe post hdrs [p] results) =
        [Log (Trying p), Post (request_for hdrs p),
         Log (AttemptFailed p (status_of err) (data_of err)), Delay 300, Log NoneWorked])
   \<and> (is_exhausted (fst (probe post' hdrs' cands [])) \<longrightarrow>
      delays (snd (probe post' hdrs' cands [])) = replicate (length cands) 300)"
proof (intro conjI impI)
  assume h: "post (length results) (request_for hdrs p) = Rejected err
      \<and> (response err = None \<or> status_of err = Some 400 \<or> status_of err = Some 422)"
  then have a: "abort_status err = None"
    by (auto simp: abort_status_no_response abort_status_recoverable)
  note step = probe_continue [where post=post and results=results, OF conjunct1 [OF h] a]
  show "snd (probe post hdrs (p # rest) results) =
        [Log (Trying p), Post (request_for hdrs p),
         Log (AttemptFailed p (status_of err) (data_of err)), Delay 300]
        @ snd (probe post hdrs rest (results @ [attempt p err]))"
    by (simp add: step del: probe.simps)
  show "snd (probe post hdrs [p] results) =
        [Log (Trying p), Post (request_for hdrs p),
         Log (AttemptFailed p (status_of err) (data_of err)), Delay 300, Log NoneWorked]"
    by (simp add: step del: probe.simps(2))
next
  assume "is_exhausted (fst (probe post' hdrs' cands []))"
  then show "delays (snd (probe post' hdrs' cands [])) = replicate (length cands) 300"
    by (rule exhausted_delays)
qed

text \<open>
  The second and last of two candidates, answered 422: the delay precedes the closing log
  line, and the exhausted run has two delays.
\<close>

theorem delay_after_every_continuing_failure_witness:
  "always_422 1 (request_for (headers demo_settings) (two_candidates ! 1)) = Rejected err_422
   \<and> status_of err_422 = Some 422
   \<and> snd (probe always_422 (headers demo_settings) [two_candidates ! 1]
            [attempt (two_candidates ! 0) err_422]) =
       [Log (Trying (two_candidates ! 1)),
        Post (request_for (headers demo_settings) (two_candidates ! 1)),
        Log (AttemptFailed (two_candidates ! 1) (Some 422) (data_of err_422)),
        Delay 300, Log NoneWorked]
   \<and> is_exhausted (fst (probe always_422 (headers demo_settings) two_candidates []))
   \<and> delays (snd (probe always_422 (headers demo_settings) two_candidates [])) = [300, 300]"
  using delay_after_every_continuing_failure [where post=always_422
      and results="[attempt (two_candidates ! 0) err_422]" and hdrs="headers demo_settings"
      and p="two_candidates ! 1" and err=err_422 and rest="[]"
      and post'=always_422 and hdrs'="headers demo_settings" and cands=two_candidates]
  by (simp add: two_candidates_def always_422_def err_422_def failed_with_def status_of_def
      abort_status_def exhausted_response_def is_exhausted_def keys_def field_def)

text \<open>
  C9. For a call rejected with a response of body \<open>d\<close> and an error message \<open>m\<close>, the
  \<^verbatim>\<open>data\<close> of the record pushed and, when the status aborts the run, the \<^verbatim>\<open>error\<close>
  of the answer are \<open>d\<close> when \<open>d\<close> is truthy and the message \<open>m\<close> when it is falsy;
  the empty string, \<^verbatim>\<open>null\<close> and \<^verbatim>\<open>undefined\<close> are falsy. The record is the one
  the run carries on with after a status 400 or 422.
\<close>

theorem falsy_body_falls_back_to_message:
  assumes "post (length results) (request_for hdrs p) = Rejected err"
    and "err = \<lparr>response = Some \<lparr>status = s, data = d\<rparr>, message = m\<rparr>"
  shows "field ''data'' (attempt p err) = Some (if truthy d then d else JStr m)
       \<and> (s \<noteq> 0 \<and> s \<noteq> 400 \<and> s \<noteq> 422 \<longrightarrow>
            fst (probe post hdrs (p # rest) results) =
              \<lparr>statusCode = s,
               body = JObj [(''error'', if truthy d then d else JStr m),
                            (''attempts'', JArr (results @ [attempt p err]))]\<rparr>)
       \<and> (s = 400 \<or> s = 422 \<longrightarrow>
            fst (probe post hdrs (p # rest) results) =
              fst (probe post hdrs rest (results @ [attempt p err])))
       \<and> \<not> truthy (JStr []) \<and> \<not> truthy JNull \<and> \<not> truthy JUndefined"
proof (intro conjI impI)
  show "field ''data'' (attempt p err) = Some (if truthy d then d else JStr m)"
    by (simp add: assms(2) attempt_def field_def data_of_def js_or_def)
next
  assume "s \<noteq> 0 \<and> s \<noteq> 400 \<and> s \<noteq> 422"
  then have a: "abort_status err = Some s"
    by (simp add: assms(2) abort_status_def status_of_def)
  have e: "js_or (data_of err) (JStr (message err)) = (if truthy d then d else JStr m)"
    by (simp add: assms(2) data_of_def js_or_def)
  show "fst (probe post hdrs (p # rest) results) =
              \<lparr>statusCode = s,
               body = JObj [(''error'', if truthy d then d else JStr m),
                            (''attempts'', JArr (results @ [attempt p err]))]\<rparr>"
    by (simp add: probe_abort [where post=post and results=results, OF assms(1) a]
        abort_response_def e del: probe.simps)
next
  assume "s = 400 \<or> s = 422"
  then have a: "abort_status err = None"
    by (auto simp: assms(2) abort_status_def status_of_def)
  show "fst (probe post hdrs (p # rest) results) =
              fst (probe post hdrs rest (results @ [attempt p err]))"
    by (simp add: probe_continue [where post=post and results=results, OF assms(1) a]
        del: probe.simps)
qed simp_all

text \<open>
  A 503 with an empty body.
\<close>

theorem falsy_body_falls_back_to_message_witness:
  "always_503_empty 0 (request_for (headers demo_settings) (one_candidate ! 0))
     = Rejected err_503_empty
   \<and> err_503_empty = \<lparr>response = Some \<lparr>status = 503, data = JStr []\<rparr>,
                       message = ''Request failed with status code 503''\<rparr>
   \<and> field ''data'' (attempt (one_candidate ! 0) err_503_empty)
       = Some (JStr ''Request failed with status code 503'')
   \<and> fst (probe always_503_empty (headers demo_settings) [one_candidate ! 0] []) =
       \<lparr>statusCode = 503,
        body = JObj [(''error'', JStr ''Request failed with status code 503''),
                     (''attempts'', JArr [attempt (one_candidate ! 0) err_503_empty])]\<rparr>"
proof -
  have call: "always_503_empty (length ([]::jsval list))
                (request_for (headers demo_settings) (one_candidate ! 0)) = Rejected err_503_empty"
    by (simp add: always_503_empty_def)
  have err: "err_503_empty = \<lparr>response = Some \<lparr>status = 503, data = JStr []\<rparr>,
                       message = ''Request failed with status code 503''\<rparr>"
    by (simp add: err_503_empty_def failed_with_def)
  from falsy_body_falls_back_to_message [where post=always_503_empty and results="[]"
      and rest="[]", OF call err]
  have "field ''data'' (attempt (one_candidate ! 0) err_503_empty)
       = Some (JStr ''Request failed with status code 503'')
     \<and> fst (probe always_503_empty (headers demo_settings) [one_candidate ! 0] []) =
       \<lparr>statusCode = 503,
        body = JObj [(''error'', JStr ''Request failed with status code 503''),
                     (''attempts'', JArr [attempt (one_candidate ! 0) err_503_empty])]\<rparr>"
    by simp
  with call err show ?thesis by simp
qed




end
